theory Spec2Isabelle
  imports Complex_Main
begin

section \<open>JavaScript values\<close>

text \<open>
  \<^verbatim>\<open>include/service/jobs/job_runner.js\<close> is dynamically typed: every parameter of
  every method may hold any value. The model covers the primitive values and Error
  objects, which are the values the documented parameter types (String, Float, Integer,
  Error) and their absence (\<^verbatim>\<open>undefined\<close>, \<^verbatim>\<open>null\<close>) range over. Other objects
  (arrays, plain objects, functions) are outside the model.

  A number is NaN, an infinity or a finite value. A finite double is a rational number, and
  the comparisons the source makes (\<^verbatim>\<open><= 0\<close>, \<^verbatim>\<open>> 1\<close>) are exact on doubles, so a finite
  number is modelled by its rational value; both zeros are \<open>Fin 0\<close>.
\<close>

datatype jsnum = NaN | PosInf | NegInf | Fin rat

datatype jsval =
    JUndefined
  | JNull
  | JBool bool
  | JNum jsnum
  | JStr string
  | JError string string
    \<comment> \<open>an Error object: what its \<^verbatim>\<open>toString()\<close> yields, and its \<^verbatim>\<open>stack\<close> property\<close>

datatype js_exn = Error string | TypeError string

text \<open>
  The conversions of the language and of Node.js that the source relies on and that are
  not part of the repository are parameters of the model: how a number is printed, how a
  string is read as a number, \<^verbatim>\<open>JSON.stringify\<close> and \<^verbatim>\<open>util.inspect\<close> (both used by
  \<^verbatim>\<open>util.format\<close> only), and the value of \<^verbatim>\<open>pb.system.getWorkerId()\<close>.
\<close>

record platform =
  number_to_string :: "jsnum \<Rightarrow> string"
  string_to_number :: "string \<Rightarrow> jsnum"
  json_stringify :: "jsval \<Rightarrow> string"
  inspect :: "jsval \<Rightarrow> string"
  getWorkerId :: jsval

fun truthy :: "jsval \<Rightarrow> bool" where
  "truthy JUndefined = False"
| "truthy JNull = False"
| "truthy (JBool b) = b"
| "truthy (JNum n) = (n \<noteq> NaN \<and> n \<noteq> Fin 0)"
| "truthy (JStr s) = (s \<noteq> [])"
| "truthy (JError t st) = True"

fun isError :: "jsval \<Rightarrow> bool" where
  "isError (JError t st) = True"
| "isError v = False"

fun to_number :: "platform \<Rightarrow> jsval \<Rightarrow> jsnum" where
  "to_number p JUndefined = NaN"
| "to_number p JNull = Fin 0"
| "to_number p (JBool b) = (if b then Fin 1 else Fin 0)"
| "to_number p (JNum n) = n"
| "to_number p (JStr s) = string_to_number p s"
| "to_number p (JError t st) = string_to_number p t"

fun to_str :: "platform \<Rightarrow> jsval \<Rightarrow> string" where
  "to_str p JUndefined = ''undefined''"
| "to_str p JNull = ''null''"
| "to_str p (JBool b) = (if b then ''true'' else ''false'')"
| "to_str p (JNum n) = number_to_string p n"
| "to_str p (JStr s) = s"
| "to_str p (JError t st) = t"

text \<open>\<^verbatim>\<open>a <= b\<close> and \<^verbatim>\<open>a > b\<close> on numbers: false as soon as one side is NaN.\<close>

fun num_le :: "jsnum \<Rightarrow> jsnum \<Rightarrow> bool" where
  "num_le NaN b = False"
| "num_le a NaN = False"
| "num_le NegInf b = True"
| "num_le a PosInf = True"
| "num_le PosInf b = False"
| "num_le a NegInf = False"
| "num_le (Fin x) (Fin y) = (x \<le> y)"

fun num_gt :: "jsnum \<Rightarrow> jsnum \<Rightarrow> bool" where
  "num_gt NaN b = False"
| "num_gt a NaN = False"
| "num_gt PosInf PosInf = False"
| "num_gt PosInf b = True"
| "num_gt a PosInf = False"
| "num_gt NegInf b = False"
| "num_gt a NegInf = True"
| "num_gt (Fin x) (Fin y) = (x > y)"

definition isNaN :: "platform \<Rightarrow> jsval \<Rightarrow> bool" where
  "isNaN p v = (to_number p v = NaN)"

definition js_le :: "platform \<Rightarrow> jsval \<Rightarrow> jsnum \<Rightarrow> bool" where
  "js_le p v n = num_le (to_number p v) n"

definition js_gt :: "platform \<Rightarrow> jsval \<Rightarrow> jsnum \<Rightarrow> bool" where
  "js_gt p v n = num_gt (to_number p v) n"

text \<open>Reading the property \<^verbatim>\<open>stack\<close>: a TypeError on \<^verbatim>\<open>undefined\<close> and \<^verbatim>\<open>null\<close>,
  \<^verbatim>\<open>undefined\<close> on the other primitives.\<close>

fun prop_stack :: "jsval \<Rightarrow> js_exn + jsval" where
  "prop_stack JUndefined = Inl (TypeError ''Cannot read property 'stack' of undefined'')"
| "prop_stack JNull = Inl (TypeError ''Cannot read property 'stack' of null'')"
| "prop_stack (JError t st) = Inr (JStr st)"
| "prop_stack v = Inr JUndefined"


section \<open>The job runner instance\<close>

datatype dao_handle = DAO

record job_runner =
  dao :: "dao_handle option"
  id' :: jsval
  name :: jsval
  chunkOfWorkPercentage :: jsval

text \<open>The constructor assigns \<^verbatim>\<open>dao\<close>, \<^verbatim>\<open>id\<close> and \<^verbatim>\<open>chunkOfWorkPercentage\<close>;
  \<^verbatim>\<open>name\<close> is a property the object does not have yet, so reading it gives \<^verbatim>\<open>undefined\<close>.\<close>

definition JobRunner :: job_runner where
  "JobRunner = \<lparr> dao = None, id' = JNull, name = JUndefined, chunkOfWorkPercentage = JNum (Fin 1) \<rparr>"

definition JOB_LOG_STORE_NAME :: string where
  "JOB_LOG_STORE_NAME = ''job_log''"

definition JOB_STORE_NAME :: string where
  "JOB_STORE_NAME = ''job_run''"

definition DEFAULT_START_STATUS :: string where
  "DEFAULT_START_STATUS = ''RUNNING''"

definition DEFAULT_DONE_STATUS :: string where
  "DEFAULT_DONE_STATUS = ''COMPLETED''"

definition DEFAULT_ERROR_STATUS :: string where
  "DEFAULT_ERROR_STATUS = ''ERRORED''"

text \<open>
  \<^verbatim>\<open>init(name, jobId)\<close>. The argument \<open>fresh\<close> is what
  \<^verbatim>\<open>pb.utils.uniqueId().toString()\<close> yields; the generator is not part of the source file,
  and it is only consulted when \<^verbatim>\<open>jobId\<close> is falsy. The result is the instance after the
  call, which is also what the method returns (\<^verbatim>\<open>return this\<close>).
\<close>

definition init :: "string \<Rightarrow> jsval \<Rightarrow> jsval \<Rightarrow> job_runner \<Rightarrow> job_runner" where
  "init fresh nm jobId this =
     (let this1 = this\<lparr> dao := Some DAO \<rparr>;
          this2 = this1\<lparr> id' := (if truthy jobId then jobId else JStr fresh) \<rparr>
      in this2\<lparr> name := (if truthy nm then nm else id' this2) \<rparr>)"

definition getId :: "job_runner \<Rightarrow> jsval" where
  "getId this = id' this"

text \<open>
  \<^verbatim>\<open>setChunkOfWorkPercentage\<close>: the exception thrown, if any, and the instance after
  the call.
\<close>

definition setChunkOfWorkPercentage ::
  "platform \<Rightarrow> jsval \<Rightarrow> job_runner \<Rightarrow> js_exn option \<times> job_runner" where
  "setChunkOfWorkPercentage p v this =
     (if isNaN p v \<or> js_le p v (Fin 0) \<or> js_gt p v (Fin 1)
      then (Some (Error ''The chunkOfWorkPercentage must be a value between 0 (exclusive) and 1 (inclusive)''), this)
      else (None, this\<lparr> chunkOfWorkPercentage := v \<rparr>))"

definition getChunkOfWorkPercentage :: "job_runner \<Rightarrow> jsval" where
  "getChunkOfWorkPercentage this = chunkOfWorkPercentage this"

definition run :: "job_runner \<Rightarrow> js_exn + unit" where
  "run this = Inl (Error ''This function must be overriden by an extending prototype'')"

text \<open>The interval \<open>(0, 1]\<close> of the specification, on numbers.\<close>

fun in_unit_interval :: "jsnum \<Rightarrow> bool" where
  "in_unit_interval (Fin q) = (0 < q \<and> q \<le> 1)"
| "in_unit_interval n = False"


section \<open>Documents and the calls to the collaborators\<close>

text \<open>An object literal handed to the persistence layer: its properties in insertion order.\<close>

datatype doc_val = Val jsval | Arr "doc_val list" | Doc "(string \<times> doc_val) list"

type_synonym doc = "(string \<times> doc_val) list"

text \<open>\<^verbatim>\<open>o[k] = v\<close>: an existing property keeps its place, a new one goes last.\<close>

fun set_field :: "string \<Rightarrow> doc_val \<Rightarrow> doc \<Rightarrow> doc" where
  "set_field k v [] = [(k, v)]"
| "set_field k v ((k', v') # kvs) =
     (if k = k' then (k, v) # kvs else (k', v') # set_field k v kvs)"

definition get_field :: "string \<Rightarrow> doc \<Rightarrow> doc_val option" where
  "get_field k d = map_of d k"

text \<open>
  What a method does to the outside: the calls to the persistence collaborator
  (\<^verbatim>\<open>this.dao.update\<close>, \<^verbatim>\<open>this.dao.save\<close>, \<^verbatim>\<open>this.dao.updateFields\<close>) and to the
  diagnostic sink (\<^verbatim>\<open>pb.log.debug\<close>, \<^verbatim>\<open>pb.log.error\<close>), in the order they are made.
\<close>

datatype effect =
    DaoUpdate doc
  | DaoSave doc
  | DaoUpdateFields string doc doc
  | LogDebug "jsval list"
  | LogError "jsval list"

text \<open>Modelled from the spec: \<^verbatim>\<open>pb.DAO.getIDWhere\<close> is not in the source file; it is
  "a key-query constructor that builds an equality filter on the job's id".\<close>

definition getIDWhere :: "jsval \<Rightarrow> doc" where
  "getIDWhere v = [(''id'', Val v)]"

text \<open>Modelled from the spec: \<^verbatim>\<open>pb.validation.isFloat\<close> is not in the source file; it
  accepts a progress increment that "is a valid numeric value".\<close>

fun isFloat :: "jsval \<Rightarrow> bool" where
  "isFloat (JNum n) = (n \<noteq> NaN)"
| "isFloat v = False"

text \<open>Modelled from the spec: \<^verbatim>\<open>pb.validation.validateNonEmptyStr\<close> is not in the source
  file; it accepts a status that "is a non-empty string".\<close>

fun validateNonEmptyStr :: "jsval \<Rightarrow> bool" where
  "validateNonEmptyStr (JStr s) = (s \<noteq> [])"
| "validateNonEmptyStr v = False"


section \<open>Formatting\<close>

text \<open>
  \<^verbatim>\<open>util.format\<close> of Node.js, as in the releases of the repository's time. With a string
  as first argument, every match of \<^verbatim>\<open>/%[sdj%]/g\<close> is replaced from left to right:
  \<^verbatim>\<open>%%\<close> by a percent sign, and a directive by the next argument, converted, as long as
  arguments are left; then the arguments not consumed are appended, each after a space.
  With another first argument, all arguments are inspected and joined by spaces.
\<close>

definition format_directive :: "platform \<Rightarrow> char \<Rightarrow> jsval \<Rightarrow> string" where
  "format_directive p d a =
     (if d = CHR ''s'' then to_str p a
      else if d = CHR ''d'' then number_to_string p (to_number p a)
      else json_stringify p a)"

fun format_replace :: "platform \<Rightarrow> string \<Rightarrow> jsval list \<Rightarrow> string \<times> jsval list" where
  "format_replace p [] args = ([], args)"
| "format_replace p [c] args = ([c], args)"
| "format_replace p (c # d # cs) args =
     (if c = CHR ''%'' \<and> d = CHR ''%''
      then (case format_replace p cs args of (r, rest) \<Rightarrow> (CHR ''%'' # r, rest))
      else if c = CHR ''%'' \<and> (d = CHR ''s'' \<or> d = CHR ''d'' \<or> d = CHR ''j'')
      then (case args of
              [] \<Rightarrow> (case format_replace p cs [] of (r, rest) \<Rightarrow> (c # d # r, rest))
            | a # as \<Rightarrow> (case format_replace p cs as of (r, rest) \<Rightarrow> (format_directive p d a @ r, rest)))
      else (case format_replace p (d # cs) args of (r, rest) \<Rightarrow> (c # r, rest)))"

fun isObject :: "jsval \<Rightarrow> bool" where
  "isObject (JError t st) = True"
| "isObject v = False"

fun format_surplus :: "platform \<Rightarrow> jsval list \<Rightarrow> string" where
  "format_surplus p [] = []"
| "format_surplus p (x # xs) =
     (if isObject x then '' '' @ inspect p x else '' '' @ to_str p x) @ format_surplus p xs"

fun join_spaces :: "string list \<Rightarrow> string" where
  "join_spaces [] = []"
| "join_spaces [s] = s"
| "join_spaces (s # t # ss) = s @ '' '' @ join_spaces (t # ss)"

fun format :: "platform \<Rightarrow> jsval list \<Rightarrow> string" where
  "format p [] = []"
| "format p (JStr f # args) =
     (case format_replace p f args of (s, rest) \<Rightarrow> s @ format_surplus p rest)"
| "format p (v # args) = join_spaces (map (inspect p) (v # args))"


section \<open>Logging and the lifecycle calls\<close>

text \<open>
  \<^verbatim>\<open>log(...)\<close> with its arguments as a list (the name \<open>log\<close> is the logarithm's, hence
  the prime). Calling a method of \<^verbatim>\<open>this.dao\<close> while it is still \<^verbatim>\<open>null\<close> throws a
  TypeError.
\<close>

definition log' :: "platform \<Rightarrow> job_runner \<Rightarrow> jsval list \<Rightarrow> js_exn + effect list" where
  "log' p this arguments =
     (case arguments of
        [] \<Rightarrow> Inr []
      | a # vs \<Rightarrow>
          (let args = JStr (to_str p (name this) @ '': '' @ to_str p a) # vs;
               meta = Arr [];
               message = (if length args > 1 then JStr (format p args) else hd args);
               statement =
                 [(''object_type'', Val (JStr JOB_LOG_STORE_NAME)),
                  (''job_id'', Val (id' this)),
                  (''worker_id'', Val (getWorkerId p)),
                  (''name'', Val (name this)),
                  (''message'', Val message),
                  (''metadata'', meta)]
           in case dao this of
                None \<Rightarrow> Inl (TypeError ''Cannot call method 'update' of null'')
              | Some h \<Rightarrow> Inr [DaoUpdate statement, LogDebug args]))"

text \<open>
  The persistence collaborator answers a \<^verbatim>\<open>save\<close> or \<^verbatim>\<open>updateFields\<close> by calling the
  callback it was given with \<^verbatim>\<open>(err, result)\<close>. The three callbacks of the source look at
  \<^verbatim>\<open>err\<close> only; each is modelled by a function of \<^verbatim>\<open>err\<close>, and a lifecycle call takes the
  collaborator's answer \<open>reply\<close> as an argument and lists what its callback does after what
  the call itself does.
\<close>

definition onStart_callback :: "jsval \<Rightarrow> js_exn + effect list" where
  "onStart_callback err =
     (if isError err
      then (case prop_stack err of
              Inl e \<Rightarrow> Inl e
            | Inr st \<Rightarrow> Inr [LogError [JStr ''JobRunner: Failed to mark job as started %s'', st]])
      else Inr [])"

definition onUpdate_callback :: "jsval \<Rightarrow> js_exn + effect list" where
  "onUpdate_callback err =
     (if isError err
      then (case prop_stack err of
              Inl e \<Rightarrow> Inl e
            | Inr st \<Rightarrow> Inr [LogError [JStr ''JobRunner: Failed to update job progress - '', st]])
      else Inr [])"

definition onCompleted_callback :: "jsval \<Rightarrow> js_exn + effect list" where
  "onCompleted_callback err =
     (if isError err
      then (case prop_stack err of
              Inl e \<Rightarrow> Inl e
            | Inr st \<Rightarrow> Inr [LogError [JStr ''JobRunner: Failed to update job as completed - %s'', st]])
      else Inr [])"

text \<open>What was done so far, followed by what the next step does, unless either throws.\<close>

definition and_then :: "js_exn + effect list \<Rightarrow> js_exn + effect list \<Rightarrow> js_exn + effect list" where
  "and_then r1 r2 =
     (case r1 of
        Inl e \<Rightarrow> Inl e
      | Inr es1 \<Rightarrow> (case r2 of Inl e \<Rightarrow> Inl e | Inr es2 \<Rightarrow> Inr (es1 @ es2)))"

definition onStart :: "job_runner \<Rightarrow> jsval \<Rightarrow> jsval \<Rightarrow> js_exn + effect list" where
  "onStart this status reply =
     (let job0 = getIDWhere (getId this);
          job1 = set_field ''object_type'' (Val (JStr JOB_STORE_NAME)) job0;
          job2 = set_field ''name'' (Val (name this)) job1;
          job3 = set_field ''status'' (Val (if truthy status then status else JStr DEFAULT_START_STATUS)) job2;
          job = set_field ''progress'' (Val (JNum (Fin 0))) job3
      in case dao this of
           None \<Rightarrow> Inl (TypeError ''Cannot call method 'save' of null'')
         | Some h \<Rightarrow> and_then (Inr [DaoSave job]) (onStart_callback reply))"

text \<open>
  Object references: \<^verbatim>\<open>{}\<close> creates a new object each time it is evaluated, and
  \<^verbatim>\<open>!==\<close> on two objects compares the references, not the contents.
\<close>

type_synonym ref = nat

definition new_object :: "nat \<Rightarrow> ref \<times> nat" where
  "new_object next_free = (next_free, Suc next_free)"

definition strict_not_equal :: "ref \<Rightarrow> ref \<Rightarrow> bool" where
  "strict_not_equal a b = (a \<noteq> b)"

definition onUpdate :: "platform \<Rightarrow> job_runner \<Rightarrow> jsval \<Rightarrow> jsval \<Rightarrow> jsval \<Rightarrow> js_exn + effect list" where
  "onUpdate p this progressIncrement status reply =
     (case log' p this
             [JStr ''Updating job [%s:%s] by %s percent with status: %s'',
              getId this, name this, progressIncrement, status] of
        Inl e \<Rightarrow> Inl e
      | Inr logged \<Rightarrow>
          (let query = getIDWhere (getId this);
               (updates_ref, heap1) = new_object 0;
               updates0 = [];
               updates1 = (if isFloat progressIncrement
                           then set_field ''$inc'' (Doc [(''progress'', Val progressIncrement)]) updates0
                           else updates0);
               updates = (if validateNonEmptyStr status
                          then set_field ''$set'' (Doc [(''status'', Val status)]) updates1
                          else updates1);
               (literal_ref, heap2) = new_object heap1
           in if strict_not_equal updates_ref literal_ref
              then and_then (Inr (logged @ [DaoUpdateFields JOB_STORE_NAME query updates]))
                            (onUpdate_callback reply)
              else Inr logged))"

definition onCompleted :: "platform \<Rightarrow> job_runner \<Rightarrow> jsval \<Rightarrow> jsval \<Rightarrow> jsval \<Rightarrow> js_exn + effect list" where
  "onCompleted p this status0 err0 reply =
     (let (status, err) =
            (if isError status0 then (JStr DEFAULT_ERROR_STATUS, status0)
             else if \<not> truthy status0 then (JStr DEFAULT_DONE_STATUS, err0)
             else (status0, err0))
      in case log' p this
                [JStr ''Setting job [%s:%s] as completed with status: %s'',
                 getId this, name this, status] of
           Inl e \<Rightarrow> Inl e
         | Inr logged \<Rightarrow>
             (let query = getIDWhere (getId this)
              in case (if truthy err then prop_stack err else Inr JUndefined) of
                   Inl e \<Rightarrow> Inl e
                 | Inr error \<Rightarrow>
                     (let sets = [(''$set'', Doc [(''status'', Val status),
                                                  (''progress'', Val (JNum (Fin 100))),
                                                  (''error'', Val error)])]
                      in and_then (Inr (logged @ [DaoUpdateFields JOB_STORE_NAME query sets]))
                                  (onCompleted_callback reply))))"


text \<open>The \<^verbatim>\<open>updateFields\<close> calls among what a method did.\<close>

definition updateFields_calls :: "effect list \<Rightarrow> effect list" where
  "updateFields_calls es = filter (\<lambda>e. case e of DaoUpdateFields c q u \<Rightarrow> True | _ \<Rightarrow> False) es"


section \<open>The persisted records\<close>

text \<open>
  The persistence collaborator behind \<^verbatim>\<open>this.dao\<close> is not in the source file. What it
  does with the calls it receives is taken from the specification's contract for it
  (sections 3 and 6): writes are applied in the order they were issued.
\<close>

text \<open>Modelled from the spec: the sum an "additive numeric increment" stores. The sum of
  two finite numbers is their exact sum: the rounding of doubles is not modelled.\<close>

fun num_add :: "jsnum \<Rightarrow> jsnum \<Rightarrow> jsnum" where
  "num_add NaN b = NaN"
| "num_add a NaN = NaN"
| "num_add PosInf NegInf = NaN"
| "num_add NegInf PosInf = NaN"
| "num_add PosInf b = PosInf"
| "num_add a PosInf = PosInf"
| "num_add NegInf b = NegInf"
| "num_add a NegInf = NegInf"
| "num_add (Fin x) (Fin y) = Fin (x + y)"

text \<open>Modelled from the spec: the "additive numeric increment" of one field. A field that
  is absent starts from the increment; a field that holds no number is left as it is.\<close>

fun inc_field :: "string \<Rightarrow> doc_val \<Rightarrow> doc \<Rightarrow> doc" where
  "inc_field k (Val (JNum m)) d =
     (case get_field k d of
        None \<Rightarrow> set_field k (Val (JNum m)) d
      | Some (Val (JNum n)) \<Rightarrow> set_field k (Val (JNum (num_add n m))) d
      | Some other \<Rightarrow> d)"
| "inc_field k v d = d"

text \<open>Modelled from the spec: an update "distinguishes additive numeric increments from
  field overwrites"; the source writes the former under \<^verbatim>\<open>$inc\<close> and the latter under
  \<^verbatim>\<open>$set\<close>.\<close>

fun apply_operator :: "string \<times> doc_val \<Rightarrow> doc \<Rightarrow> doc" where
  "apply_operator (operator, Doc fs) d =
     (if operator = ''$inc'' then fold (\<lambda>(k, v). inc_field k v) fs d
      else if operator = ''$set'' then fold (\<lambda>(k, v). set_field k v) fs d
      else d)"
| "apply_operator (operator, v) d = d"

text \<open>Modelled from the spec: the update argument of \<^verbatim>\<open>updateFields\<close>, applied to one
  document.\<close>

definition apply_updates :: "doc \<Rightarrow> doc \<Rightarrow> doc" where
  "apply_updates u d = fold apply_operator u d"

text \<open>Modelled from the spec: the key query is "an equality filter"; a document satisfies
  it when it holds the query's value under each of the query's fields.\<close>

definition matches :: "doc \<Rightarrow> doc \<Rightarrow> bool" where
  "matches q d = list_all (\<lambda>(k, v). get_field k d = Some v) q"

type_synonym store = "string \<Rightarrow> doc list"

text \<open>Modelled from the spec: the collection a document belongs to is the one its
  \<^verbatim>\<open>object_type\<close> names.\<close>

definition collection_of :: "doc \<Rightarrow> string option" where
  "collection_of d =
     (case get_field ''object_type'' d of Some (Val (JStr c)) \<Rightarrow> Some c | _ \<Rightarrow> None)"

text \<open>Modelled from the spec: \<^verbatim>\<open>save\<close> is an "upsert keyed by \<^verbatim>\<open>id\<close>".\<close>

fun upsert :: "doc \<Rightarrow> doc list \<Rightarrow> doc list" where
  "upsert d [] = [d]"
| "upsert d (x # xs) =
     (if get_field ''id'' x = get_field ''id'' d then d # xs else x # upsert d xs)"

text \<open>Modelled from the spec: what one call does to the persisted collections. A Job Log
  Entry is "created on every \<^verbatim>\<open>log\<close> call"; \<^verbatim>\<open>updateFields(collectionName, keyQuery,
  update)\<close> changes the documents of the collection that satisfy the key query; the
  diagnostic sink persists nothing.\<close>

fun persist :: "effect \<Rightarrow> store \<Rightarrow> store" where
  "persist (DaoUpdate d) s =
     (case collection_of d of None \<Rightarrow> s | Some c \<Rightarrow> s(c := s c @ [d]))"
| "persist (DaoSave d) s =
     (case collection_of d of None \<Rightarrow> s | Some c \<Rightarrow> s(c := upsert d (s c)))"
| "persist (DaoUpdateFields c q u) s =
     s(c := map (\<lambda>d. if matches q d then apply_updates u d else d) (s c))"
| "persist (LogDebug a) s = s"
| "persist (LogError a) s = s"

text \<open>Modelled from the spec: the calls of a run, persisted in the order they were issued.\<close>

definition persist_all :: "effect list \<Rightarrow> store \<Rightarrow> store" where
  "persist_all es s = fold persist es s"

text \<open>Modelled from the spec: a lifecycle call's writes, persisted according to the
  collaborator's answer. A \<^verbatim>\<open>save\<close> or \<^verbatim>\<open>updateFields\<close> the collaborator reports as failed (it
  answers with an Error) is not written; the log entries, which are issued without a
  callback, are persisted as issued.\<close>

definition persist_call :: "jsval \<Rightarrow> effect list \<Rightarrow> store \<Rightarrow> store" where
  "persist_call reply es s =
     persist_all
       (if isError reply
        then filter (\<lambda>e. case e of DaoSave d \<Rightarrow> False | DaoUpdateFields c q u \<Rightarrow> False | _ \<Rightarrow> True) es
        else es) s"


section \<open>A platform to evaluate the model on\<close>

text \<open>
  The theorems below hold for every platform. To run the model on concrete calls, one
  platform is fixed here. Its conversions are those of the language on the values the
  examples use: an integral number is printed in decimal, a string of decimal digits is
  read as that number and the empty string as 0, and an Error object is inspected as its
  text in brackets. On the other values (a number with a fractional part is printed as a
  fraction, every other string is read as NaN) it is only some platform.
\<close>

fun nat_to_string :: "nat \<Rightarrow> string" where
  "nat_to_string n =
     (if n < 10 then [''0123456789'' ! n]
      else nat_to_string (n div 10) @ [''0123456789'' ! (n mod 10)])"

definition int_to_string :: "int \<Rightarrow> string" where
  "int_to_string i = (if i < 0 then ''-'' @ nat_to_string (nat (- i)) else nat_to_string (nat i))"

fun example_number_to_string :: "jsnum \<Rightarrow> string" where
  "example_number_to_string NaN = ''NaN''"
| "example_number_to_string PosInf = ''Infinity''"
| "example_number_to_string NegInf = ''-Infinity''"
| "example_number_to_string (Fin q) =
     (case quotient_of q of (a, b) \<Rightarrow>
        if b = 1 then int_to_string a else int_to_string a @ ''/'' @ int_to_string b)"

fun digits_value :: "nat \<Rightarrow> string \<Rightarrow> nat option" where
  "digits_value acc [] = Some acc"
| "digits_value acc (c # cs) =
     (if c \<in> set ''0123456789''
      then digits_value (10 * acc + (of_char c - 48)) cs
      else None)"

definition example_string_to_number :: "string \<Rightarrow> jsnum" where
  "example_string_to_number s =
     (case digits_value 0 s of None \<Rightarrow> NaN | Some n \<Rightarrow> Fin (of_nat n))"

fun example_inspect :: "jsval \<Rightarrow> string" where
  "example_inspect JUndefined = ''undefined''"
| "example_inspect JNull = ''null''"
| "example_inspect (JBool b) = (if b then ''true'' else ''false'')"
| "example_inspect (JNum n) = example_number_to_string n"
| "example_inspect (JStr s) = [CHR 0x27] @ s @ [CHR 0x27]"
| "example_inspect (JError t st) = ''['' @ t @ '']''"

fun example_json_stringify :: "jsval \<Rightarrow> string" where
  "example_json_stringify JUndefined = ''undefined''"
| "example_json_stringify JNull = ''null''"
| "example_json_stringify (JBool b) = (if b then ''true'' else ''false'')"
| "example_json_stringify (JNum n) =
     (case n of Fin q \<Rightarrow> example_number_to_string n | _ \<Rightarrow> ''null'')"
| "example_json_stringify (JStr s) = [CHR 0x22] @ s @ [CHR 0x22]"
| "example_json_stringify (JError t st) = ''{}''"

definition example_platform :: platform where
  "example_platform =
     \<lparr> number_to_string = example_number_to_string,
       string_to_number = example_string_to_number,
       json_stringify = example_json_stringify,
       inspect = example_inspect,
       getWorkerId = JStr ''worker-1'' \<rparr>"

definition example_job :: job_runner where
  "example_job = init ''5f1e'' (JStr ''reindex'') JUndefined JobRunner"

definition example_store :: store where
  "example_store =
     (\<lambda>c. if c = ''job_run''
          then [[(''id'', Val (JStr ''5f1e'')),
                 (''object_type'', Val (JStr ''job_run'')),
                 (''name'', Val (JStr ''reindex'')),
                 (''status'', Val (JStr ''RUNNING'')),
                 (''progress'', Val (JNum (Fin 40)))]]
          else [])"

declare nat_to_string.simps [simp del]


section \<open>Auxiliary facts\<close>

lemma log_initialised:
  assumes "dao this \<noteq> None"
  shows "log' p this (a # vs) =
    Inr [DaoUpdate
           [(''object_type'', Val (JStr ''job_log'')),
            (''job_id'', Val (getId this)),
            (''worker_id'', Val (getWorkerId p)),
            (''name'', Val (name this)),
            (''message'', Val (JStr (if vs = [] then to_str p (name this) @ '': '' @ to_str p a
                                     else format p (JStr (to_str p (name this) @ '': '' @ to_str p a) # vs)))),
            (''metadata'', Arr [])],
         LogDebug (JStr (to_str p (name this) @ '': '' @ to_str p a) # vs)]"
  using assms by (cases vs) (auto simp add: log'_def getId_def JOB_LOG_STORE_NAME_def)

lemma onStart_callback_failure:
  "isError reply \<Longrightarrow> \<exists>entry. onStart_callback reply = Inr [LogError entry]"
  by (cases reply) (simp_all add: onStart_callback_def)

lemma onUpdate_callback_failure:
  "isError reply \<Longrightarrow> \<exists>entry. onUpdate_callback reply = Inr [LogError entry]"
  by (cases reply) (simp_all add: onUpdate_callback_def)

lemma onCompleted_callback_failure:
  "isError reply \<Longrightarrow> \<exists>entry. onCompleted_callback reply = Inr [LogError entry]"
  by (cases reply) (simp_all add: onCompleted_callback_def)

lemma onUpdate_callback_total:
  "\<exists>es. onUpdate_callback reply = Inr es \<and> updateFields_calls es = [] \<and> (\<forall>s. persist_all es s = s)"
  by (cases reply) (simp_all add: onUpdate_callback_def updateFields_calls_def persist_all_def)

lemma onCompleted_callback_total:
  "\<exists>es. onCompleted_callback reply = Inr es \<and> updateFields_calls es = []"
  by (cases reply) (simp_all add: onCompleted_callback_def updateFields_calls_def)

lemma onStart_callback_total:
  "\<exists>es. onStart_callback reply = Inr es"
  by (cases reply) (simp_all add: onStart_callback_def)

lemma guarded_stack_read:
  "(if truthy e then prop_stack e else Inr JUndefined) =
     Inr (case e of JError t st \<Rightarrow> JStr st | _ \<Rightarrow> JUndefined)"
  by (cases e) simp_all




lemma num_checks_unit_interval:
  "(n = NaN \<or> num_le n (Fin 0) \<or> num_gt n (Fin 1)) = (\<not> in_unit_interval n)"
  by (cases n) auto

lemma get_field_set_field:
  "get_field k (set_field k' v d) = (if k = k' then Some v else get_field k d)"
  by (induction d) (auto simp add: get_field_def)

lemma persist_all_simps:
  "persist_all [] s = s"
  "persist_all (e # es) s = persist_all es (persist e s)"
  "persist_all (es1 @ es2) s = persist_all es2 (persist_all es1 s)"
  by (simp_all add: persist_all_def)

lemma onUpdate_valid_increment_effects:
  assumes "dao this \<noteq> None" and "isFloat (JNum a)"
  shows "\<exists>es. onUpdate p this (JNum a) status reply = Inr es \<and>
          updateFields_calls es =
            [DaoUpdateFields ''job_run'' (getIDWhere (getId this))
               ((''$inc'', Doc [(''progress'', Val (JNum a))]) #
                (if validateNonEmptyStr status
                 then [(''$set'', Doc [(''status'', Val status)])] else []))] \<and>
          (\<forall>s. \<not> isError reply \<longrightarrow>
             persist_call reply es s ''job_run'' =
                 map (\<lambda>d. if matches (getIDWhere (getId this)) d
                           then apply_updates
                                  ((''$inc'', Doc [(''progress'', Val (JNum a))]) #
                                   (if validateNonEmptyStr status
                                    then [(''$set'', Doc [(''status'', Val status)])] else []))
                                  d
                           else d)
                     (s ''job_run''))"
proof -
  define U where "U = (''$inc'', Doc [(''progress'', Val (JNum a))]) #
                (if validateNonEmptyStr status
                 then [(''$set'', Doc [(''status'', Val status)])] else [])"
  obtain cb where cb: "onUpdate_callback reply = Inr cb" "updateFields_calls cb = []"
    "\<forall>s. persist_all cb s = s"
    using onUpdate_callback_total by blast
  have call: "onUpdate p this (JNum a) status reply =
      Inr ([DaoUpdate
           [(''object_type'', Val (JStr ''job_log'')),
            (''job_id'', Val (getId this)),
            (''worker_id'', Val (getWorkerId p)),
            (''name'', Val (name this)),
            (''message'', Val (JStr (format p
                 [JStr (to_str p (name this) @ '': '' @ ''Updating job [%s:%s] by %s percent with status: %s''),
                  getId this, name this, JNum a, status]))),
            (''metadata'', Arr [])],
         LogDebug [JStr (to_str p (name this) @ '': '' @ ''Updating job [%s:%s] by %s percent with status: %s''),
                   getId this, name this, JNum a, status],
         DaoUpdateFields ''job_run'' (getIDWhere (getId this)) U] @ cb)"
    using cb(1) assms(2)
    by (cases "validateNonEmptyStr status")
       (simp_all add: U_def onUpdate_def log_initialised [OF assms(1)] and_then_def new_object_def
        strict_not_equal_def JOB_STORE_NAME_def del: format.simps)
  have calls: "updateFields_calls ([DaoUpdate st, LogDebug l, DaoUpdateFields c q u] @ cb) =
                 [DaoUpdateFields c q u]" for st l c q u
    using cb(2) by (simp add: updateFields_calls_def)
  have store: "persist_call reply ([DaoUpdate
           [(''object_type'', Val (JStr ''job_log'')),
            (''job_id'', j), (''worker_id'', w), (''name'', nm), (''message'', m),
            (''metadata'', Arr [])], LogDebug l,
            DaoUpdateFields ''job_run'' q u] @ cb) s ''job_run'' =
          map (\<lambda>d. if matches q d then apply_updates u d else d) (s ''job_run'')"
    if "\<not> isError reply" for j w nm m l q u s
    using cb(3) that
    by (simp add: persist_call_def persist_all_simps collection_of_def get_field_def)
  show ?thesis
    unfolding U_def [symmetric] call
    by (intro exI conjI allI impI, rule refl, rule calls, rule store)
qed

lemma apply_updates_progress:
  assumes "matches (getIDWhere v) d"
    and "get_field ''progress'' d = Some (Val (JNum n))"
  shows "matches (getIDWhere v)
           (apply_updates ((''$inc'', Doc [(''progress'', Val (JNum a))]) #
                           (if c then [(''$set'', Doc [(''status'', Val st)])] else [])) d)"
    and "get_field ''progress''
           (apply_updates ((''$inc'', Doc [(''progress'', Val (JNum a))]) #
                           (if c then [(''$set'', Doc [(''status'', Val st)])] else [])) d) =
         Some (Val (JNum (num_add n a)))"
  using assms
  by (simp_all add: apply_updates_def matches_def getIDWhere_def get_field_set_field)

lemma onUpdate_always_calls_updateFields:
  assumes "dao this \<noteq> None"
  shows "\<exists>es u. onUpdate p this progressIncrement status reply = Inr es \<and>
           updateFields_calls es =
             [DaoUpdateFields ''job_run'' (getIDWhere (getId this)) u]"
proof -
  obtain cb where cb: "onUpdate_callback reply = Inr cb" "updateFields_calls cb = []"
    using onUpdate_callback_total by blast
  then show ?thesis
    by (simp add: onUpdate_def log_initialised [OF assms] and_then_def new_object_def
        strict_not_equal_def updateFields_calls_def JOB_STORE_NAME_def Let_def
        del: format.simps)
qed


section \<open>The claims\<close>

subsection \<open>C1: \<^verbatim>\<open>onUpdate\<close> with two invalid arguments\<close>

text \<open>
  C1 says that \<^verbatim>\<open>onUpdate(progressIncrement, status)\<close> with an invalid increment
  and an invalid status does not invoke \<^verbatim>\<open>updateFields\<close>. The source guards the write
  with \<^verbatim>\<open>updates !== {}\<close> under the comment "ensure we need to update", but that
  compares the references of two distinct objects and is always true. At
  \<^verbatim>\<open>onUpdate(undefined, undefined)\<close> on an initialised job, \<^verbatim>\<open>updateFields\<close> is invoked
  once, with an empty update; \<open>onUpdate_always_calls_updateFields\<close> shows that the write
  is issued whatever the arguments are.
\<close>

theorem onUpdate_invalid_arguments_still_write:
  "\<not> isFloat JUndefined \<and> \<not> validateNonEmptyStr JUndefined \<and>
   map_sum id updateFields_calls (onUpdate example_platform example_job JUndefined JUndefined JNull) =
     Inr [DaoUpdateFields ''job_run'' [(''id'', Val (JStr ''5f1e''))] []]"
  by (simp add: onUpdate_def log'_def example_job_def init_def JobRunner_def getId_def
      getIDWhere_def new_object_def strict_not_equal_def and_then_def onUpdate_callback_def
      updateFields_calls_def JOB_STORE_NAME_def Let_def)


subsection \<open>C2: \<^verbatim>\<open>onCompleted\<close>\<close>

text \<open>
  C2: for every call \<^verbatim>\<open>onCompleted(status, err)\<close> on an initialised job there is exactly
  one \<^verbatim>\<open>updateFields\<close> call, on the job run record of the job's id. Its status is
  \<^verbatim>\<open>ERRORED\<close> when the first argument is an Error, the first argument when that is
  truthy (for a string: non-empty), whether or not \<^verbatim>\<open>err\<close> is given, and \<^verbatim>\<open>COMPLETED\<close>
  otherwise; its progress is 100; its error is the stack of the error (the first argument
  when that is an Error, else \<^verbatim>\<open>err\<close>) when there is one, and \<^verbatim>\<open>undefined\<close> when there
  is none.
\<close>

theorem onCompleted_persists:
  assumes "dao this \<noteq> None"
  shows "\<exists>es. onCompleted p this status err reply = Inr es \<and>
     updateFields_calls es =
       [DaoUpdateFields ''job_run'' (getIDWhere (getId this))
          [(''$set'',
            Doc [(''status'', Val (if isError status then JStr ''ERRORED''
                                   else if truthy status then status else JStr ''COMPLETED'')),
                 (''progress'', Val (JNum (Fin 100))),
                 (''error'', Val (case (if isError status then status else err) of
                                    JError t st \<Rightarrow> JStr st | _ \<Rightarrow> JUndefined))])]]"
proof -
  obtain cb where cb: "onCompleted_callback reply = Inr cb" "updateFields_calls cb = []"
    using onCompleted_callback_total by blast
  show ?thesis
    using cb
    by (simp add: onCompleted_def log_initialised [OF assms] guarded_stack_read and_then_def
        updateFields_calls_def JOB_STORE_NAME_def DEFAULT_ERROR_STATUS_def DEFAULT_DONE_STATUS_def)
qed

theorem onCompleted_persists_witness:
  "dao example_job \<noteq> None \<and>
   (\<exists>es. onCompleted example_platform example_job (JStr ''PARTIAL'')
             (JError ''Error: boom'' ''Error: boom at run'') JNull = Inr es \<and>
     updateFields_calls es =
       [DaoUpdateFields ''job_run'' [(''id'', Val (JStr ''5f1e''))]
          [(''$set'',
            Doc [(''status'', Val (JStr ''PARTIAL'')),
                 (''progress'', Val (JNum (Fin 100))),
                 (''error'', Val (JStr ''Error: boom at run''))])]])"
proof -
  have h: "dao example_job \<noteq> None"
    by (simp add: example_job_def init_def)
  have q: "getIDWhere (getId example_job) = [(''id'', Val (JStr ''5f1e''))]"
    by (simp add: example_job_def init_def getId_def getIDWhere_def)
  show ?thesis
    using h q onCompleted_persists [OF h, of example_platform "JStr ''PARTIAL''"
        "JError ''Error: boom'' ''Error: boom at run''" JNull]
    by simp
qed


subsection \<open>C3: failures of the persistence collaborator\<close>

text \<open>
  C3: when the persistence collaborator reports a failure (it calls the callback with an
  Error) during \<^verbatim>\<open>onStart\<close>, \<^verbatim>\<open>onUpdate\<close> or \<^verbatim>\<open>onCompleted\<close> on an initialised job,
  the call does not throw, and what it does is what it does when the collaborator reports
  success (\<^verbatim>\<open>err\<close> is \<^verbatim>\<open>null\<close>), followed by one entry written to the diagnostic sink
  at error severity.
\<close>

theorem persistence_failure_only_logged:
  assumes "dao this \<noteq> None" and "isError reply"
  shows "(\<exists>es entry. onStart this status JNull = Inr es \<and>
                      onStart this status reply = Inr (es @ [LogError entry])) \<and>
         (\<exists>es entry. onUpdate p this progressIncrement status JNull = Inr es \<and>
                      onUpdate p this progressIncrement status reply = Inr (es @ [LogError entry])) \<and>
         (\<exists>es entry. onCompleted p this status err JNull = Inr es \<and>
                      onCompleted p this status err reply = Inr (es @ [LogError entry]))"
proof -
  obtain e1 where e1: "onStart_callback reply = Inr [LogError e1]"
    using onStart_callback_failure [OF assms(2)] by blast
  obtain e2 where e2: "onUpdate_callback reply = Inr [LogError e2]"
    using onUpdate_callback_failure [OF assms(2)] by blast
  obtain e3 where e3: "onCompleted_callback reply = Inr [LogError e3]"
    using onCompleted_callback_failure [OF assms(2)] by blast
  have n1: "onStart_callback JNull = Inr []"
    by (simp add: onStart_callback_def)
  have n2: "onUpdate_callback JNull = Inr []"
    by (simp add: onUpdate_callback_def)
  have n3: "onCompleted_callback JNull = Inr []"
    by (simp add: onCompleted_callback_def)
  have s1: "\<exists>es entry. onStart this status JNull = Inr es \<and>
                      onStart this status reply = Inr (es @ [LogError entry])"
    using assms(1) e1 n1 by (auto simp add: onStart_def and_then_def Let_def)
  have s2: "\<exists>es entry. onUpdate p this progressIncrement status JNull = Inr es \<and>
                      onUpdate p this progressIncrement status reply = Inr (es @ [LogError entry])"
    using e2 n2
    by (simp add: onUpdate_def log_initialised [OF assms(1)] and_then_def Let_def
        new_object_def strict_not_equal_def)
  have s3: "\<exists>es entry. onCompleted p this status err JNull = Inr es \<and>
                      onCompleted p this status err reply = Inr (es @ [LogError entry])"
    using e3 n3
    by (simp add: onCompleted_def log_initialised [OF assms(1)] guarded_stack_read and_then_def Let_def)
  from s1 s2 s3 show ?thesis by blast
qed

theorem persistence_failure_only_logged_witness:
  "dao example_job \<noteq> None \<and>
   isError (JError ''MongoError: down'' ''MongoError: down at connect'') \<and>
   (\<exists>es entry. onStart example_job JUndefined JNull = Inr es \<and>
                onStart example_job JUndefined
                  (JError ''MongoError: down'' ''MongoError: down at connect'') =
                  Inr (es @ [LogError entry])) \<and>
   (\<exists>es entry. onUpdate example_platform example_job (JNum (Fin 10)) JUndefined JNull = Inr es \<and>
                onUpdate example_platform example_job (JNum (Fin 10)) JUndefined
                  (JError ''MongoError: down'' ''MongoError: down at connect'') =
                  Inr (es @ [LogError entry])) \<and>
   (\<exists>es entry. onCompleted example_platform example_job JUndefined JUndefined JNull = Inr es \<and>
                onCompleted example_platform example_job JUndefined JUndefined
                  (JError ''MongoError: down'' ''MongoError: down at connect'') =
                  Inr (es @ [LogError entry]))"
proof -
  have h1: "dao example_job \<noteq> None"
    by (simp add: example_job_def init_def)
  have h2: "isError (JError ''MongoError: down'' ''MongoError: down at connect'')"
    by simp
  show ?thesis
    using h1 h2 persistence_failure_only_logged
      [where this = example_job and p = example_platform and status = JUndefined
         and progressIncrement = "JNum (Fin 10)" and err = JUndefined, OF h1 h2]
    by simp
qed


subsection \<open>C4: what \<^verbatim>\<open>setChunkOfWorkPercentage\<close> rejects\<close>

text \<open>
  C4 says that every value outside \<open>(0, 1]\<close>, a non-numeric one included, makes
  \<^verbatim>\<open>setChunkOfWorkPercentage\<close> throw and leaves the stored value as it was. The source
  documents the property as a Float that "must be a value between 0 (exclusive) & 1
  (inclusive)", and its guard \<^verbatim>\<open>isNaN(v) || v <= 0 || v > 1\<close> is there to reject what is
  not such a number; but \<^verbatim>\<open>isNaN\<close> and the comparisons convert \<^verbatim>\<open>v\<close> to a number first.
  At \<^verbatim>\<open>setChunkOfWorkPercentage(true)\<close> on a new instance, \<^verbatim>\<open>true\<close> converts to 1, nothing
  is thrown, and the stored value changes from 1 to \<^verbatim>\<open>true\<close>.
\<close>

theorem setChunkOfWorkPercentage_true_is_stored:
  "fst (setChunkOfWorkPercentage example_platform (JBool True) JobRunner) = None \<and>
   getChunkOfWorkPercentage (snd (setChunkOfWorkPercentage example_platform (JBool True) JobRunner)) = JBool True \<and>
   getChunkOfWorkPercentage JobRunner = JNum (Fin 1)"
  by (simp add: setChunkOfWorkPercentage_def isNaN_def js_le_def js_gt_def getChunkOfWorkPercentage_def JobRunner_def)

text \<open>
  What the guard does reject is every value whose conversion to a number is not in
  \<open>(0, 1]\<close>: for numbers, \<^verbatim>\<open>undefined\<close>, \<^verbatim>\<open>null\<close> and \<^verbatim>\<open>false\<close> the source does what the claim
  says.
\<close>

lemma setChunkOfWorkPercentage_rejects:
  assumes "\<not> in_unit_interval (to_number p v)"
  shows "setChunkOfWorkPercentage p v this =
           (Some (Error ''The chunkOfWorkPercentage must be a value between 0 (exclusive) and 1 (inclusive)''), this)"
  using assms num_checks_unit_interval [of "to_number p v"]
  by (simp add: setChunkOfWorkPercentage_def isNaN_def js_le_def js_gt_def)


subsection \<open>C5: progress increments add up\<close>

text \<open>
  C5: progress updates are additive, not absolute. On an initialised job, every call
  \<^verbatim>\<open>onUpdate(a, status)\<close> with a valid increment \<open>a\<close> issues one \<^verbatim>\<open>updateFields\<close> call on
  the job's record whose update is the additive increment of \<^verbatim>\<open>progress\<close> by \<open>a\<close> (and
  the overwrite of \<^verbatim>\<open>status\<close> when that is a non-empty string), never an overwrite of
  \<^verbatim>\<open>progress\<close>. When the collaborator reports both writes as done, two such calls with
  increments \<open>a\<close> and \<open>b\<close> take the progress of the job's record from any number \<open>n\<close> to
  \<open>(n + a) + b\<close>; for \<^verbatim>\<open>onUpdate(10)\<close> then \<^verbatim>\<open>onUpdate(15)\<close> that is \<open>n + 25\<close>.
\<close>

theorem onUpdate_increments_add_up:
  assumes "dao this \<noteq> None"
    and "isFloat (JNum a)" and "isFloat (JNum b)"
    and "\<not> isError replyA" and "\<not> isError replyB"
    and "i < length (s ''job_run'')"
    and "matches (getIDWhere (getId this)) (s ''job_run'' ! i)"
    and "get_field ''progress'' (s ''job_run'' ! i) = Some (Val (JNum n))"
  shows "\<exists>es1 es2.
           onUpdate p this (JNum a) statusA replyA = Inr es1 \<and>
           onUpdate p this (JNum b) statusB replyB = Inr es2 \<and>
           updateFields_calls es1 =
             [DaoUpdateFields ''job_run'' (getIDWhere (getId this))
                ((''$inc'', Doc [(''progress'', Val (JNum a))]) #
                 (if validateNonEmptyStr statusA
                  then [(''$set'', Doc [(''status'', Val statusA)])] else []))] \<and>
           updateFields_calls es2 =
             [DaoUpdateFields ''job_run'' (getIDWhere (getId this))
                ((''$inc'', Doc [(''progress'', Val (JNum b))]) #
                 (if validateNonEmptyStr statusB
                  then [(''$set'', Doc [(''status'', Val statusB)])] else []))] \<and>
           get_field ''progress''
             (persist_call replyB es2 (persist_call replyA es1 s) ''job_run'' ! i) =
             Some (Val (JNum (num_add (num_add n a) b))) \<and>
           (a = Fin 10 \<and> b = Fin 15 \<longrightarrow>
              get_field ''progress''
                (persist_call replyB es2 (persist_call replyA es1 s) ''job_run'' ! i) =
                Some (Val (JNum (num_add n (Fin 25)))))"
proof -
  define UA where "UA = (''$inc'', Doc [(''progress'', Val (JNum a))]) #
                 (if validateNonEmptyStr statusA
                  then [(''$set'', Doc [(''status'', Val statusA)])] else [])"
  define UB where "UB = (''$inc'', Doc [(''progress'', Val (JNum b))]) #
                 (if validateNonEmptyStr statusB
                  then [(''$set'', Doc [(''status'', Val statusB)])] else [])"
  define q where "q = getIDWhere (getId this)"
  define d where "d = s ''job_run'' ! i"
  obtain es1 where es1: "onUpdate p this (JNum a) statusA replyA = Inr es1"
    "updateFields_calls es1 = [DaoUpdateFields ''job_run'' q UA]"
    "\<forall>s. \<not> isError replyA \<longrightarrow> persist_call replyA es1 s ''job_run'' =
           map (\<lambda>d. if matches q d then apply_updates UA d else d) (s ''job_run'')"
    using onUpdate_valid_increment_effects [OF assms(1,2), of p statusA replyA]
    unfolding UA_def q_def by blast
  obtain es2 where es2: "onUpdate p this (JNum b) statusB replyB = Inr es2"
    "updateFields_calls es2 = [DaoUpdateFields ''job_run'' q UB]"
    "\<forall>s. \<not> isError replyB \<longrightarrow> persist_call replyB es2 s ''job_run'' =
           map (\<lambda>d. if matches q d then apply_updates UB d else d) (s ''job_run'')"
    using onUpdate_valid_increment_effects [OF assms(1,3), of p statusB replyB]
    unfolding UB_def q_def by blast
  have m0: "matches q d" and p0: "get_field ''progress'' d = Some (Val (JNum n))"
    using assms(7,8) by (simp_all add: q_def d_def)
  have m1: "matches q (apply_updates UA d)"
    and p1: "get_field ''progress'' (apply_updates UA d) = Some (Val (JNum (num_add n a)))"
    using apply_updates_progress [OF m0 [unfolded q_def] p0, of a "validateNonEmptyStr statusA" statusA]
    by (simp_all add: UA_def q_def)
  have p2: "get_field ''progress'' (apply_updates UB (apply_updates UA d)) =
              Some (Val (JNum (num_add (num_add n a) b)))"
    using apply_updates_progress(2) [OF m1 [unfolded q_def] p1, of b "validateNonEmptyStr statusB" statusB]
    by (simp add: UB_def)
  have first: "persist_call replyA es1 s ''job_run'' =
                 map (\<lambda>d. if matches q d then apply_updates UA d else d) (s ''job_run'')"
    using es1(3) assms(4) by blast
  have second: "persist_call replyB es2 (persist_call replyA es1 s) ''job_run'' =
                 map (\<lambda>d. if matches q d then apply_updates UB d else d)
                   (persist_call replyA es1 s ''job_run'')"
    using es2(3) assms(5) by blast
  have final: "persist_call replyB es2 (persist_call replyA es1 s) ''job_run'' ! i =
                 apply_updates UB (apply_updates UA d)"
    using assms(6) m0 m1 by (simp add: first second d_def)
  have sum: "num_add (num_add n (Fin 10)) (Fin 15) = num_add n (Fin 25)"
    by (cases n) simp_all
  have persisted: "get_field ''progress''
             (persist_call replyB es2 (persist_call replyA es1 s) ''job_run'' ! i) =
             Some (Val (JNum (num_add (num_add n a) b)))"
    using final p2 by simp
  show ?thesis
    using es1(1,2) es2(1,2) persisted sum
    unfolding UA_def [symmetric] UB_def [symmetric] q_def [symmetric]
    by auto
qed

theorem onUpdate_increments_add_up_witness:
  "dao example_job \<noteq> None \<and>
   isFloat (JNum (Fin 10)) \<and> isFloat (JNum (Fin 15)) \<and>
   \<not> isError JNull \<and>
   0 < length (example_store ''job_run'') \<and>
   matches (getIDWhere (getId example_job)) (example_store ''job_run'' ! 0) \<and>
   get_field ''progress'' (example_store ''job_run'' ! 0) = Some (Val (JNum (Fin 40))) \<and>
   (\<exists>es1 es2.
           onUpdate example_platform example_job (JNum (Fin 10)) JUndefined JNull = Inr es1 \<and>
           onUpdate example_platform example_job (JNum (Fin 15)) JUndefined JNull = Inr es2 \<and>
           updateFields_calls es1 =
             [DaoUpdateFields ''job_run'' (getIDWhere (getId example_job))
                [(''$inc'', Doc [(''progress'', Val (JNum (Fin 10)))])]] \<and>
           updateFields_calls es2 =
             [DaoUpdateFields ''job_run'' (getIDWhere (getId example_job))
                [(''$inc'', Doc [(''progress'', Val (JNum (Fin 15)))])]] \<and>
           get_field ''progress''
             (persist_call JNull es2 (persist_call JNull es1 example_store) ''job_run'' ! 0) =
             Some (Val (JNum (Fin 65))))"
proof -
  have h1: "dao example_job \<noteq> None"
    by (simp add: example_job_def init_def)
  have h2: "0 < length (example_store ''job_run'')"
    by (simp add: example_store_def)
  have h3: "matches (getIDWhere (getId example_job)) (example_store ''job_run'' ! 0)"
    by (simp add: example_store_def example_job_def init_def getId_def getIDWhere_def
        matches_def get_field_def)
  have h4: "get_field ''progress'' (example_store ''job_run'' ! 0) = Some (Val (JNum (Fin 40)))"
    by (simp add: example_store_def get_field_def)
  show ?thesis
    using h1 h2 h3 h4
      onUpdate_increments_add_up [where this = example_job and s = example_store and i = 0
        and n = "Fin 40" and p = example_platform and replyA = JNull and replyB = JNull
        and a = "Fin 10" and b = "Fin 15" and statusA = JUndefined and statusB = JUndefined]
    by simp
qed


subsection \<open>C6: \<^verbatim>\<open>onStart\<close> with no status\<close>

text \<open>
  C6: for every initialised job, \<^verbatim>\<open>onStart()\<close> first saves a job run record that is keyed
  by the job's id, has the job's name, the status \<^verbatim>\<open>RUNNING\<close> and the progress 0.
\<close>

theorem onStart_default_record:
  assumes "dao this \<noteq> None"
  shows "\<exists>rest. onStart this JUndefined reply =
           Inr (DaoSave [(''id'', Val (getId this)),
                         (''object_type'', Val (JStr ''job_run'')),
                         (''name'', Val (name this)),
                         (''status'', Val (JStr ''RUNNING'')),
                         (''progress'', Val (JNum (Fin 0)))] # rest)"
proof -
  obtain es where "onStart_callback reply = Inr es"
    using onStart_callback_total by blast
  with assms show ?thesis
    by (auto simp add: onStart_def getIDWhere_def JOB_STORE_NAME_def DEFAULT_START_STATUS_def and_then_def)
qed

theorem onStart_default_record_witness:
  "dao example_job \<noteq> None \<and>
   (\<exists>rest. onStart example_job JUndefined JNull =
           Inr (DaoSave [(''id'', Val (JStr ''5f1e'')),
                         (''object_type'', Val (JStr ''job_run'')),
                         (''name'', Val (JStr ''reindex'')),
                         (''status'', Val (JStr ''RUNNING'')),
                         (''progress'', Val (JNum (Fin 0)))] # rest))"
proof -
  have h: "dao example_job \<noteq> None"
    by (simp add: example_job_def init_def)
  show ?thesis using h onStart_default_record [OF h, of JNull]
    by (simp add: example_job_def init_def getId_def)
qed


subsection \<open>C7: \<^verbatim>\<open>init\<close> and \<^verbatim>\<open>getId\<close>\<close>

text \<open>
  C7: after \<^verbatim>\<open>init(name, jobId)\<close>, \<^verbatim>\<open>getId()\<close> on the returned instance gives \<^verbatim>\<open>jobId\<close>
  when that is truthy (for a string: non-empty) and the identifier taken from the
  generator otherwise, which is not empty as long as the generator's identifiers are not;
  the name is the given name when that is truthy (for a string: non-empty) and the id
  otherwise. The instance returned is the one \<^verbatim>\<open>init\<close> was called on, with its persistence
  handle set and its work weight untouched.
\<close>

theorem init_getId_name:
  assumes "fresh \<noteq> []"
  shows "getId (init fresh nm jobId this) = (if truthy jobId then jobId else JStr fresh) \<and>
         truthy (getId (init fresh nm jobId this)) \<and>
         name (init fresh nm jobId this) = (if truthy nm then nm else getId (init fresh nm jobId this)) \<and>
         dao (init fresh nm jobId this) = Some DAO \<and>
         chunkOfWorkPercentage (init fresh nm jobId this) = chunkOfWorkPercentage this"
  using assms by (simp add: init_def getId_def Let_def)

theorem init_getId_name_witness:
  "''5f1e'' \<noteq> [] \<and>
   getId (init ''5f1e'' (JStr ''reindex'') JUndefined JobRunner) = JStr ''5f1e'' \<and>
   name (init ''5f1e'' (JStr ''reindex'') JUndefined JobRunner) = JStr ''reindex'' \<and>
   getId (init ''5f1e'' (JStr []) (JStr ''job-42'') JobRunner) = JStr ''job-42'' \<and>
   name (init ''5f1e'' (JStr []) (JStr ''job-42'') JobRunner) = JStr ''job-42''"
proof -
  have h: "''5f1e'' \<noteq> []" by simp
  show ?thesis
    using init_getId_name [OF h, of "JStr ''reindex''" JUndefined JobRunner]
      init_getId_name [OF h, of "JStr []" "JStr ''job-42''" JobRunner]
    by simp
qed


subsection \<open>C8: the message \<^verbatim>\<open>log\<close> persists\<close>





subsection \<open>C9: the default work weight\<close>

text \<open>
  C9: a newly constructed JobRunner has \<^verbatim>\<open>getChunkOfWorkPercentage()\<close> equal to 1.
\<close>

theorem default_chunkOfWorkPercentage:
  "getChunkOfWorkPercentage JobRunner = JNum (Fin 1)"
  by (simp add: getChunkOfWorkPercentage_def JobRunner_def)


subsection \<open>C10: \<^verbatim>\<open>log\<close> without arguments\<close>

text \<open>
  C10: \<^verbatim>\<open>log()\<close> with no argument returns without throwing, persists no Job Log Entry and
  writes nothing to the diagnostic sink, on every instance.
\<close>

theorem log_without_arguments:
  "log' p this [] = Inr []"
  by (simp add: log'_def)

end
